theory Spec2Isabelle
  imports Main
begin

section \<open>Python values, exceptions and dictionaries\<close>

text \<open>
  The backend is one Python module, \<^verbatim>\<open>backend_app.py\<close>. Its deployment function talks to
  three things it does not define: the injected web3 object, the file system and the JSON
  parser. Each of them is a record of outcomes below, so that a run of the function is a
  pure computation over those outcomes, and every call made on the web3 object is written
  to a call log in the order the source makes it.

  Values that come out of \<^verbatim>\<open>json.load\<close> or go into a returned dictionary are Python
  values. A float is kept as a mantissa and a binary exponent (finite floats only); the
  code only ever asks whether one is zero.
\<close>

datatype pyval =
    PNone
  | PBool bool
  | PInt int
  | PFloat int int
  | PStr string
  | PList "pyval list"
  | PDict "(string \<times> pyval) list"

type_synonym pydict = "(string \<times> pyval) list"

text \<open>
  An exception is its class and the text \<^verbatim>\<open>str(e)\<close> gives. Only subclasses of
  \<^verbatim>\<open>Exception\<close> are modelled: \<^verbatim>\<open>KeyboardInterrupt\<close> and \<^verbatim>\<open>SystemExit\<close>, which no
  \<^verbatim>\<open>except Exception\<close> catches, are signals of the interpreter and not outcomes of a call.
\<close>

datatype exn_class =
    FileNotFoundError
  | JSONDecodeError
  | KeyError
  | TypeError
  | AttributeError
  | TimeExhausted
  | OtherException

datatype exn = Exn (exn_class: exn_class) (exn_str: string)

text \<open>\<^verbatim>\<open>not v\<close> is \<open>\<not> py_truthy v\<close>.\<close>

fun py_truthy :: "pyval \<Rightarrow> bool" where
  "py_truthy PNone = False"
| "py_truthy (PBool b) = b"
| "py_truthy (PInt i) = (i \<noteq> 0)"
| "py_truthy (PFloat m e) = (m \<noteq> 0)"
| "py_truthy (PStr s) = (s \<noteq> [])"
| "py_truthy (PList xs) = (xs \<noteq> [])"
| "py_truthy (PDict kvs) = (kvs \<noteq> [])"

text \<open>
  A configuration value read with \<^verbatim>\<open>os.environ.get\<close> is \<^verbatim>\<open>None\<close> or a string;
  \<^verbatim>\<open>not x\<close> holds for \<^verbatim>\<open>None\<close> and for the empty string.
\<close>

fun str_truthy :: "string option \<Rightarrow> bool" where
  "str_truthy None = False"
| "str_truthy (Some s) = (s \<noteq> [])"

text \<open>What an f-string prints for such a value.\<close>

fun format_opt :: "string option \<Rightarrow> string" where
  "format_opt None = ''None''"
| "format_opt (Some s) = s"

text \<open>\<^verbatim>\<open>repr\<close> of a string without quotes or escapes in it, as \<^verbatim>\<open>str(KeyError(k))\<close> shows it.\<close>

definition py_quote :: "string \<Rightarrow> string" where
  "py_quote s = [CHR 0x27] @ s @ [CHR 0x27]"

text \<open>The name \<^verbatim>\<open>type(v).__name__\<close> that CPython puts into its error texts.\<close>

fun py_type_name :: "pyval \<Rightarrow> string" where
  "py_type_name PNone = ''NoneType''"
| "py_type_name (PBool b) = ''bool''"
| "py_type_name (PInt i) = ''int''"
| "py_type_name (PFloat m e) = ''float''"
| "py_type_name (PStr s) = ''str''"
| "py_type_name (PList xs) = ''list''"
| "py_type_name (PDict kvs) = ''dict''"

text \<open>
  \<^verbatim>\<open>v[k]\<close> for a string key \<open>k\<close>. A dictionary raises \<^verbatim>\<open>KeyError\<close> on a missing key; every
  other value raises \<^verbatim>\<open>TypeError\<close> (texts as CPython 3.11 words them). The list of a
  \<open>PDict\<close> is the items of the dictionary, keys distinct.
\<close>

fun py_getitem :: "pyval \<Rightarrow> string \<Rightarrow> exn + pyval" where
  "py_getitem (PDict kvs) k =
     (case map_of kvs k of
        None \<Rightarrow> Inl (Exn KeyError (py_quote k))
      | Some v \<Rightarrow> Inr v)"
| "py_getitem (PList xs) k =
     Inl (Exn TypeError ''list indices must be integers or slices, not str'')"
| "py_getitem (PStr s) k =
     Inl (Exn TypeError (''string indices must be integers, not '' @ py_quote ''str''))"
| "py_getitem v k =
     Inl (Exn TypeError (py_quote (py_type_name v) @ '' object is not subscriptable''))"

text \<open>\<^verbatim>\<open>v.get(k)\<close>: the value, or \<^verbatim>\<open>None\<close>; only a dictionary has the method.\<close>

fun dict_get :: "pyval \<Rightarrow> string \<Rightarrow> exn + pyval" where
  "dict_get (PDict kvs) k = (case map_of kvs k of None \<Rightarrow> Inr PNone | Some v \<Rightarrow> Inr v)"
| "dict_get v k =
     Inl (Exn AttributeError
       (py_quote (py_type_name v) @ '' object has no attribute '' @ py_quote ''get''))"

text \<open>\<^verbatim>\<open>k in d\<close> and the keys of a dictionary.\<close>

definition py_in :: "string \<Rightarrow> pydict \<Rightarrow> bool" where
  "py_in k d = (map_of d k \<noteq> None)"

definition keys :: "pydict \<Rightarrow> string list" where
  "keys d = map fst d"

section \<open>Unit conversion\<close>

text \<open>
  \<^verbatim>\<open>Web3.to_wei(number, unit)\<close> is a static library function: it reads the number as a
  decimal (a float through its shortest decimal form, so \<^verbatim>\<open>0.01\<close> is the decimal 0.01),
  multiplies by the unit's value and truncates. A decimal is a mantissa and a number of
  decimal places; the two calls of the source pass non-negative constants.
\<close>

datatype unit_name = Wei | Gwei | Ether

fun unit_value :: "unit_name \<Rightarrow> int" where
  "unit_value Wei = 1"
| "unit_value Gwei = 10 ^ 9"
| "unit_value Ether = 10 ^ 18"

definition to_wei :: "int \<Rightarrow> nat \<Rightarrow> unit_name \<Rightarrow> int" where
  "to_wei mantissa places u = (mantissa * unit_value u) div 10 ^ places"

section \<open>The web3 object, the file system and the call log\<close>

record account =
  address :: string

datatype contract = Contract (contract_abi: pyval) (contract_bytecode: pyval)

datatype bound_constructor = BoundConstructor contract "pyval list"

text \<open>The dictionary passed to \<^verbatim>\<open>estimate_gas\<close> (lines 79-82).\<close>

record estimate_params =
  est_from :: string
  est_nonce :: int

text \<open>The dictionary passed to \<^verbatim>\<open>build_transaction\<close> (lines 102-108).\<close>

record tx_params =
  tx_from :: string
  nonce :: int
  gas :: int
  gasPrice :: int
  chainId :: int

record transaction =
  params :: tx_params
  data :: string

record signed_transaction =
  rawTransaction :: string
  hash :: string

record receipt =
  status :: int
  contractAddress :: pyval

text \<open>
  The web3 object, as a test double programmed with the outcome of each operation:
  \<open>Inl e\<close> when the call raises \<open>e\<close>, \<open>Inr v\<close> when it returns \<open>v\<close>. One run of the
  deployment function makes each network call at most once, so one outcome for each
  (a function of the arguments where there are any) covers every behaviour of the node.
  Binding the constructor is local; the function does it twice with the same arguments
  (lines 79 and 102), and the outcome is a function of them.
\<close>

record w3 =
  is_connected :: "exn + bool"
  from_key :: "string \<Rightarrow> exn + account"
  eth_contract :: "pyval \<Rightarrow> pyval \<Rightarrow> exn + contract"
  get_transaction_count :: "string \<Rightarrow> exn + int"
  constructor :: "contract \<Rightarrow> pyval list \<Rightarrow> exn + bound_constructor"
  estimate_gas :: "bound_constructor \<Rightarrow> estimate_params \<Rightarrow> exn + int"
  gas_price :: "exn + int"
  chain_id :: "exn + int"
  build_transaction :: "bound_constructor \<Rightarrow> tx_params \<Rightarrow> exn + transaction"
  sign_transaction :: "transaction \<Rightarrow> string \<Rightarrow> exn + signed_transaction"
  send_raw_transaction :: "string \<Rightarrow> exn + string"
  wait_for_transaction_receipt :: "string \<Rightarrow> nat \<Rightarrow> exn + receipt"
  get_transaction :: "string \<Rightarrow> exn + unit"

text \<open>
  The file system and the parser: \<^verbatim>\<open>os.path.exists\<close> (which returns a boolean for every
  string), \<^verbatim>\<open>open(path, 'r')\<close> with the text read, and \<^verbatim>\<open>json.load\<close> on that text.
\<close>

record filesys =
  path_exists :: "string \<Rightarrow> bool"
  open_read :: "string \<Rightarrow> exn + string"
  json_load :: "string \<Rightarrow> exn + pyval"

text \<open>The call log: every call made on the web3 object, with its arguments and outcome.\<close>

datatype event =
    IsConnected "exn + bool"
  | FromKey string "exn + account"
  | EthContract pyval pyval "exn + contract"
  | GetTransactionCount string "exn + int"
  | Constructor contract "pyval list" "exn + bound_constructor"
  | EstimateGas bound_constructor estimate_params "exn + int"
  | GasPrice "exn + int"
  | ChainId "exn + int"
  | BuildTransaction bound_constructor tx_params "exn + transaction"
  | SignTransaction transaction string "exn + signed_transaction"
  | SendRawTransaction string "exn + string"
  | WaitForTransactionReceipt string nat "exn + receipt"
  | GetTransaction string "exn + unit"



fun is_submission :: "event \<Rightarrow> bool" where
  "is_submission (SendRawTransaction raw r) = True"
| "is_submission ev = False"


fun is_chain_id_query :: "event \<Rightarrow> bool" where
  "is_chain_id_query (ChainId r) = True"
| "is_chain_id_query ev = False"

fun is_build :: "event \<Rightarrow> bool" where
  "is_build (BuildTransaction b p r) = True"
| "is_build ev = False"

text \<open>The exception a logged call raised, if it raised.\<close>

fun raised :: "event \<Rightarrow> exn option" where
  "raised (IsConnected (Inl e)) = Some e"
| "raised (FromKey k (Inl e)) = Some e"
| "raised (EthContract a b (Inl e)) = Some e"
| "raised (GetTransactionCount a (Inl e)) = Some e"
| "raised (Constructor c args (Inl e)) = Some e"
| "raised (EstimateGas c p (Inl e)) = Some e"
| "raised (GasPrice (Inl e)) = Some e"
| "raised (ChainId (Inl e)) = Some e"
| "raised (BuildTransaction b p (Inl e)) = Some e"
| "raised (SignTransaction t k (Inl e)) = Some e"
| "raised (SendRawTransaction raw (Inl e)) = Some e"
| "raised (WaitForTransactionReceipt h t (Inl e)) = Some e"
| "raised (GetTransaction h (Inl e)) = Some e"
| "raised ev = None"

section \<open>The reasons the deployment function returns\<close>

text \<open>The dictionary \<^verbatim>\<open>{"error": reason}\<close>.\<close>

definition error_dict :: "string \<Rightarrow> pydict" where
  "error_dict reason = [(''error'', PStr reason)]"

text \<open>Line 43.\<close>

definition msg_no_private_key :: string where
  "msg_no_private_key = ''Private key not configured in environment variables.''"

text \<open>Line 45.\<close>

definition msg_no_artifact_path :: string where
  "msg_no_artifact_path = ''CONTRACT_ARTIFACT_PATH environment variable not set.''"

text \<open>Line 47; \<open>RPC_URL\<close> is the module's global.\<close>

definition msg_not_connected :: "string option \<Rightarrow> string" where
  "msg_not_connected RPC_URL =
     ''Backend not connected to network. RPC_URL: '' @ format_opt RPC_URL"

text \<open>Line 52.\<close>

definition msg_not_found :: "string \<Rightarrow> string" where
  "msg_not_found artifact_path =
     ''Contract artifact file not found at '' @ artifact_path @
     ''. Ensure contract is compiled and path is correct.''"

text \<open>Line 69.\<close>

definition msg_not_found_on_open :: "string \<Rightarrow> string" where
  "msg_not_found_on_open artifact_path =
     ''Contract artifact file not found at '' @ artifact_path @
     ''. Ensure contract is compiled.''"

text \<open>Line 71.\<close>

definition msg_not_json :: "string \<Rightarrow> string" where
  "msg_not_json artifact_path =
     ''Could not decode JSON from '' @ artifact_path @
     ''. Ensure it's a valid JSON file.''"

text \<open>Line 92.\<close>

definition msg_estimating_gas :: "exn \<Rightarrow> string" where
  "msg_estimating_gas e =
     ''Error estimating gas: '' @ exn_str e @
     ''. Check testnet ETH balance and constructor args.''"

text \<open>Line 135.\<close>

definition msg_transaction_failed :: string where
  "msg_transaction_failed = ''Transaction failed during deployment. Check testnet explorer.''"

text \<open>Line 139.\<close>

definition msg_unexpected :: "exn \<Rightarrow> string" where
  "msg_unexpected e = ''An unexpected error occurred: '' @ exn_str e"

section \<open>The deployment function\<close>

text \<open>
  Lines 62-71, the inner \<^verbatim>\<open>try\<close> around reading the artifact. The result is \<open>Inl e\<close>
  when an exception leaves the block (neither handler matches it), \<open>Inr (Inl d)\<close> when
  a handler returns the dictionary \<open>d\<close> from the function, and \<open>Inr (Inr (abi, bytecode))\<close>
  when the block completes.
\<close>

definition load_artifact :: "filesys \<Rightarrow> string \<Rightarrow> exn + (pydict + pyval \<times> pyval)" where
  "load_artifact fs artifact_path =
     (case
        (case open_read fs artifact_path of
           Inl e \<Rightarrow> Inl e
         | Inr f \<Rightarrow>
             (case json_load fs f of
                Inl e \<Rightarrow> Inl e
              | Inr contract_json \<Rightarrow>
                  (case py_getitem contract_json ''abi'' of
                     Inl e \<Rightarrow> Inl e
                   | Inr abi \<Rightarrow>
                       (case py_getitem contract_json ''bytecode'' of
                          Inl e \<Rightarrow> Inl e
                        | Inr bytecode \<Rightarrow> Inr (abi, bytecode)))))
      of
        Inl e \<Rightarrow>
          if exn_class e = FileNotFoundError
            then Inr (Inl (error_dict (msg_not_found_on_open artifact_path)))
          else if exn_class e = JSONDecodeError
            then Inr (Inl (error_dict (msg_not_json artifact_path)))
          else Inl e
      | Inr ab \<Rightarrow> Inr (Inr ab))"

text \<open>
  Lines 121-135: the receipt has arrived. \<open>tr\<close> is the call log so far. Fetching the
  transaction after a failed receipt is only for the console; whatever it does, the
  function returns the fixed reason.
\<close>

definition after_receipt ::
  "w3 \<Rightarrow> event list \<Rightarrow> string \<Rightarrow> receipt \<Rightarrow> event list \<times> (exn + pydict)" where
  "after_receipt w tr tx_hash tx_receipt =
     (if status tx_receipt = 1
        then (tr, Inr [(''contractAddress'', contractAddress tx_receipt)])
      else
        (let r = get_transaction w tx_hash
         in (tr @ [GetTransaction tx_hash r], Inr (error_dict msg_transaction_failed))))"

text \<open>
  Lines 102-135: build, sign, send and wait, with the gas estimate and the gas price
  already chosen. \<^verbatim>\<open>Contract.constructor(*constructor_args)\<close> is evaluated before the
  dictionary, so before \<^verbatim>\<open>w3.eth.chain_id\<close> is read.
\<close>

definition build_sign_send ::
  "w3 \<Rightarrow> event list \<Rightarrow> string \<Rightarrow> account \<Rightarrow> contract \<Rightarrow> pyval list \<Rightarrow> int \<Rightarrow> int \<Rightarrow> int \<Rightarrow>
     event list \<times> (exn + pydict)" where
  "build_sign_send w tr private_key acct Contract' constructor_args nonce' gas_estimate
     gas_price_to_use =
     (let r1 = constructor w Contract' constructor_args;
          t1 = tr @ [Constructor Contract' constructor_args r1]
      in case r1 of
        Inl e \<Rightarrow> (t1, Inl e)
      | Inr bound \<Rightarrow>
     (let r2 = chain_id w;
          t2 = t1 @ [ChainId r2]
      in case r2 of
        Inl e \<Rightarrow> (t2, Inl e)
      | Inr cid \<Rightarrow>
     (let p = \<lparr>tx_from = address acct, nonce = nonce', gas = gas_estimate + 100000,
                gasPrice = gas_price_to_use, chainId = cid\<rparr>;
          r3 = build_transaction w bound p;
          t3 = t2 @ [BuildTransaction bound p r3]
      in case r3 of
        Inl e \<Rightarrow> (t3, Inl e)
      | Inr transaction' \<Rightarrow>
     (let r4 = sign_transaction w transaction' private_key;
          t4 = t3 @ [SignTransaction transaction' private_key r4]
      in case r4 of
        Inl e \<Rightarrow> (t4, Inl e)
      | Inr signed \<Rightarrow>
     (let r5 = send_raw_transaction w (rawTransaction signed);
          t5 = t4 @ [SendRawTransaction (rawTransaction signed) r5]
      in case r5 of
        Inl e \<Rightarrow> (t5, Inl e)
      | Inr tx_hash \<Rightarrow>
     (let r6 = wait_for_transaction_receipt w tx_hash 300;
          t6 = t5 @ [WaitForTransactionReceipt tx_hash 300 r6]
      in case r6 of
        Inl e \<Rightarrow> (t6, Inl e)
      | Inr tx_receipt \<Rightarrow> after_receipt w t6 tx_hash tx_receipt))))))"

text \<open>
  Lines 56-135, the body of the outer \<^verbatim>\<open>try\<close>. \<open>Inl e\<close>: the exception \<open>e\<close> leaves
  the body; \<open>Inr d\<close>: the function returns \<open>d\<close>. Console output is not modelled; the
  conversions inside the \<^verbatim>\<open>print\<close> calls either cannot fail (\<^verbatim>\<open>to_hex\<close> of a hash) or
  fail inside a handler that ignores it (line 89).

  Lines 78-92: when binding the constructor or the estimate raises, the gas price is
  read for the console only, and the reason returned is built from the first exception.
  Lines 94-99: the price used is the node's, or 1 gwei in wei when reading it raises.
\<close>

definition deploy_try_body ::
  "filesys \<Rightarrow> w3 \<Rightarrow> string \<Rightarrow> string \<Rightarrow> pyval list \<Rightarrow> event list \<times> (exn + pydict)" where
  "deploy_try_body fs w artifact_path private_key constructor_args =
     (let r1 = from_key w private_key;
          t1 = [FromKey private_key r1]
      in case r1 of
        Inl e \<Rightarrow> (t1, Inl e)
      | Inr acct \<Rightarrow>
     (case load_artifact fs artifact_path of
        Inl e \<Rightarrow> (t1, Inl e)
      | Inr (Inl d) \<Rightarrow> (t1, Inr d)
      | Inr (Inr (abi, bytecode)) \<Rightarrow>
     (let r2 = eth_contract w abi bytecode;
          t2 = t1 @ [EthContract abi bytecode r2]
      in case r2 of
        Inl e \<Rightarrow> (t2, Inl e)
      | Inr Contract' \<Rightarrow>
     (let r3 = get_transaction_count w (address acct);
          t3 = t2 @ [GetTransactionCount (address acct) r3]
      in case r3 of
        Inl e \<Rightarrow> (t3, Inl e)
      | Inr nonce' \<Rightarrow>
     (case
        (let r4 = constructor w Contract' constructor_args;
             t4 = t3 @ [Constructor Contract' constructor_args r4]
         in case r4 of
           Inl e \<Rightarrow> (t4, Inl e)
         | Inr bound \<Rightarrow>
             (let ep = \<lparr>est_from = address acct, est_nonce = nonce'\<rparr>;
                  r5 = estimate_gas w bound ep
              in (t4 @ [EstimateGas bound ep r5], r5)))
      of
        (t5, Inl e) \<Rightarrow>
          (t5 @ [GasPrice (gas_price w)], Inr (error_dict (msg_estimating_gas e)))
      | (t5, Inr gas_estimate) \<Rightarrow>
     (let r6 = gas_price w;
          t6 = t5 @ [GasPrice r6];
          gas_price_to_use = (case r6 of Inl e \<Rightarrow> to_wei 1 0 Gwei | Inr current \<Rightarrow> current)
      in build_sign_send w t6 private_key acct Contract' constructor_args nonce'
           gas_estimate gas_price_to_use))))))"

text \<open>
  Lines 40-139. \<open>RPC_URL\<close> is the module's global, read only for the text of line 47.
  The result is the call log and either \<open>Inl e\<close>, the exception \<open>e\<close> raised to the caller,
  or \<open>Inr d\<close>, the dictionary returned. The four guards of lines 42-52 stand before the
  \<^verbatim>\<open>try\<close>; the handler of lines 137-139 turns every exception of the body into a reason.
\<close>

definition deploy_contract_backend ::
  "string option \<Rightarrow> filesys \<Rightarrow> w3 option \<Rightarrow> string option \<Rightarrow> string option \<Rightarrow> pyval list \<Rightarrow>
     event list \<times> (exn + pydict)" where
  "deploy_contract_backend RPC_URL fs w3_instance artifact_path private_key constructor_args =
     (if \<not> str_truthy private_key then ([], Inr (error_dict msg_no_private_key))
      else if \<not> str_truthy artifact_path then ([], Inr (error_dict msg_no_artifact_path))
      else
        (case w3_instance of
           None \<Rightarrow> ([], Inr (error_dict (msg_not_connected RPC_URL)))
         | Some w \<Rightarrow>
             (case is_connected w of
                Inl e \<Rightarrow> ([IsConnected (Inl e)], Inl e)
              | Inr False \<Rightarrow>
                  ([IsConnected (Inr False)], Inr (error_dict (msg_not_connected RPC_URL)))
              | Inr True \<Rightarrow>
                  if \<not> path_exists fs (the artifact_path)
                    then ([IsConnected (Inr True)],
                          Inr (error_dict (msg_not_found (the artifact_path))))
                  else
                    (case deploy_try_body fs w (the artifact_path) (the private_key)
                            constructor_args of
                       (tr, Inl e) \<Rightarrow>
                         (IsConnected (Inr True) # tr, Inr (error_dict (msg_unexpected e)))
                     | (tr, Inr d) \<Rightarrow> (IsConnected (Inr True) # tr, Inr d)))))"

section \<open>The route's constructor arguments\<close>

text \<open>
  Lines 147-182 of \<^verbatim>\<open>deploy_token\<close>: everything before the call of the deployment
  function. \<open>w3_global\<close> is the module's \<^verbatim>\<open>w3\<close>, \<open>data\<close> what \<^verbatim>\<open>request.get_json()\<close>
  returned. The result is \<open>Inl e\<close> when an exception leaves the route, \<open>Inr (Inl (body, code))\<close>
  when the route answers early, and \<open>Inr (Inr constructor_arguments)\<close> when it goes on
  to deploy.
\<close>

definition deploy_token_arguments ::
  "w3 option \<Rightarrow> string option \<Rightarrow> pyval \<Rightarrow> exn + (pydict \<times> nat + pyval list)" where
  "deploy_token_arguments w3_global FEE_RECIPIENT_ADDRESS data' =
     (if \<not> py_truthy data' then Inr (Inl ([(''error'', PStr ''Invalid JSON'')], 400))
      else
        (case dict_get data' ''name'' of
           Inl e \<Rightarrow> Inl e
         | Inr token_name \<Rightarrow>
        (case dict_get data' ''symbol'' of
           Inl e \<Rightarrow> Inl e
         | Inr token_symbol \<Rightarrow>
             if \<not> py_truthy token_name \<or> \<not> py_truthy token_symbol
               then Inr (Inl ([(''error'', PStr ''Missing token name or symbol'')], 400))
             else if \<not> str_truthy FEE_RECIPIENT_ADDRESS
               then Inr (Inl ([(''error'',
                      PStr ''Backend configuration error: Fee recipient address not set.'')], 500))
             else
               (case (case w3_global of
                        None \<Rightarrow> Inr (10 ^ 16)
                      | Some w \<Rightarrow>
                          (case is_connected w of
                             Inl e \<Rightarrow> Inl e
                           | Inr True \<Rightarrow> Inr (to_wei 1 2 Ether)
                           | Inr False \<Rightarrow> Inr (10 ^ 16)))
                of
                  Inl e \<Rightarrow> Inl e
                | Inr lp_migration_market_cap_wei \<Rightarrow>
                    Inr (Inr [token_name, token_symbol, PInt lp_migration_market_cap_wei,
                              PStr (the FEE_RECIPIENT_ADDRESS)])))))"

text \<open>Lines 192-196: the answer of the route for a result of the deployment function.\<close>

definition deploy_token_response :: "pydict \<Rightarrow> pydict \<times> nat" where
  "deploy_token_response deployment_result =
     (if py_in ''contractAddress'' deployment_result
        then ([(''tokenAddress'', the (map_of deployment_result ''contractAddress''))], 200)
      else
        ([(''error'',
           (case map_of deployment_result ''error'' of
              None \<Rightarrow> PStr ''Deployment failed''
            | Some reason \<Rightarrow> reason))], 500))"

section \<open>A test double\<close>

text \<open>
  A node on which every step succeeds: nonce 5, gas estimate 21000, gas price 1,
  chain id 8453, and a receipt with status 1. The theorems below are tried on it and
  on variants of it in which one operation fails.
\<close>

definition demo_account :: account where
  "demo_account = \<lparr>address = ''0xA11CE''\<rparr>"

definition demo_signed :: signed_transaction where
  "demo_signed = \<lparr>rawTransaction = ''0xf86b'', hash = ''0xabc''\<rparr>"

definition demo_receipt :: receipt where
  "demo_receipt = \<lparr>status = 1, contractAddress = PStr ''0xC0FFEE''\<rparr>"

definition demo_w3 :: w3 where
  "demo_w3 =
     \<lparr>is_connected = Inr True,
      from_key = (\<lambda>k. Inr demo_account),
      eth_contract = (\<lambda>a b. Inr (Contract a b)),
      get_transaction_count = (\<lambda>a. Inr 5),
      constructor = (\<lambda>c args. Inr (BoundConstructor c args)),
      estimate_gas = (\<lambda>b p. Inr 21000),
      gas_price = Inr 1,
      chain_id = Inr 8453,
      build_transaction = (\<lambda>b p. Inr \<lparr>params = p, data = ''0x6080''\<rparr>),
      sign_transaction = (\<lambda>t k. Inr demo_signed),
      send_raw_transaction = (\<lambda>raw. Inr ''0xabc''),
      wait_for_transaction_receipt = (\<lambda>h t. Inr demo_receipt),
      get_transaction = (\<lambda>h. Inr ())\<rparr>"

definition demo_artifact :: pyval where
  "demo_artifact = PDict [(''abi'', PList []), (''bytecode'', PStr ''0x6080'')]"

text \<open>A file system with one artifact, \<^verbatim>\<open>Token.json\<close>, that parses to \<open>demo_artifact\<close>.\<close>

definition demo_fs :: filesys where
  "demo_fs =
     \<lparr>path_exists = (\<lambda>p. p = ''Token.json''),
      open_read = (\<lambda>p. if p = ''Token.json'' then Inr ''artifact text''
                       else Inl (Exn FileNotFoundError ''No such file or directory'')),
      json_load = (\<lambda>s. Inr demo_artifact)\<rparr>"

definition demo_args :: "pyval list" where
  "demo_args = [PStr ''Base Fun'', PStr ''BFUN'', PInt (10 ^ 16), PStr ''0xFEE'']"

text \<open>The objects the demonstration node hands out on the way.\<close>

definition demo_bound :: bound_constructor where
  "demo_bound = BoundConstructor (Contract (PList []) (PStr ''0x6080'')) demo_args"

definition demo_estimate_params :: estimate_params where
  "demo_estimate_params = \<lparr>est_from = ''0xA11CE'', est_nonce = 5\<rparr>"

text \<open>Nodes on which one operation raises, everything else as on \<open>demo_w3\<close>.\<close>

definition estimate_fails :: w3 where
  "estimate_fails =
     demo_w3\<lparr>estimate_gas := (\<lambda>b p. Inl (Exn OtherException ''execution reverted''))\<rparr>"

definition binding_fails :: w3 where
  "binding_fails =
     demo_w3\<lparr>constructor := (\<lambda>c args. Inl (Exn TypeError ''Incorrect argument count''))\<rparr>"

text \<open>A node that reports another estimate and another chain, and one that is not connected.\<close>

definition other_node :: w3 where
  "other_node = demo_w3\<lparr>estimate_gas := (\<lambda>b p. Inr 50000), chain_id := Inr 1\<rparr>"

definition not_connected_node :: w3 where
  "not_connected_node = demo_w3\<lparr>is_connected := Inr False\<rparr>"

definition estimate_and_price_fail :: w3 where
  "estimate_and_price_fail =
     estimate_fails\<lparr>gas_price := Inl (Exn OtherException ''connection reset'')\<rparr>"

definition price_fails :: w3 where
  "price_fails = demo_w3\<lparr>gas_price := Inl (Exn OtherException ''connection reset'')\<rparr>"

definition price_and_chain_id_fail :: w3 where
  "price_and_chain_id_fail =
     price_fails\<lparr>chain_id := Inl (Exn OtherException ''connection reset'')\<rparr>"

definition receipt_times_out :: w3 where
  "receipt_times_out =
     demo_w3\<lparr>wait_for_transaction_receipt :=
       (\<lambda>h t. Inl (Exn TimeExhausted ''timed out''))\<rparr>"

definition submission_fails :: w3 where
  "submission_fails =
     demo_w3\<lparr>send_raw_transaction := (\<lambda>raw. Inl (Exn OtherException ''timed out''))\<rparr>"

definition node_rejects :: w3 where
  "node_rejects =
     demo_w3\<lparr>send_raw_transaction :=
       (\<lambda>raw. Inl (Exn OtherException ''insufficient funds for gas * price + value''))\<rparr>"

definition connectivity_check_raises :: w3 where
  "connectivity_check_raises =
     demo_w3\<lparr>is_connected := Inl (Exn OtherException ''bad response from node'')\<rparr>"

text \<open>A file system whose artifact parses but has no \<^verbatim>\<open>abi\<close> field.\<close>

definition fs_without_abi :: filesys where
  "fs_without_abi = demo_fs\<lparr>json_load := (\<lambda>s. Inr (PDict [(''bytecode'', PStr ''0x6080'')]))\<rparr>"

text \<open>A request body for the route.\<close>

definition demo_request :: pyval where
  "demo_request = PDict [(''name'', PStr ''Base Fun''), (''symbol'', PStr ''BFUN'')]"

text \<open>The deployment function on a node \<open>w\<close>, everything else as in the demonstration.\<close>

definition demo_run :: "w3 \<Rightarrow> filesys \<Rightarrow> event list \<times> (exn + pydict)" where
  "demo_run w fs =
     deploy_contract_backend (Some ''https://node.example'') fs (Some w)
       (Some ''Token.json'') (Some ''0x01'') demo_args"

section \<open>Facts shared by the proofs\<close>

lemmas run_defs =
  deploy_contract_backend_def deploy_try_body_def build_sign_send_def after_receipt_def
  Let_def

lemmas run_splits = if_splits option.splits sum.splits bool.splits prod.splits

lemmas demo_defs =
  load_artifact_def demo_run_def demo_w3_def demo_fs_def demo_args_def demo_account_def demo_signed_def
  demo_receipt_def demo_artifact_def demo_bound_def demo_estimate_params_def
  estimate_fails_def estimate_and_price_fail_def price_fails_def price_and_chain_id_fail_def
  receipt_times_out_def submission_fails_def node_rejects_def connectivity_check_raises_def
  binding_fails_def other_node_def not_connected_node_def
  fs_without_abi_def demo_request_def

lemmas msg_defs =
  error_dict_def msg_no_private_key_def msg_no_artifact_path_def msg_not_connected_def
  msg_not_found_def msg_not_found_on_open_def msg_not_json_def msg_estimating_gas_def
  msg_transaction_failed_def msg_unexpected_def

lemma to_wei_one_gwei: "to_wei 1 0 Gwei = 1000000000"
  by (simp add: to_wei_def)

lemma to_wei_hundredth_ether: "to_wei 1 2 Ether = 10000000000000000"
  by (simp add: to_wei_def)

text \<open>What each stage can hand back, from the last stage to the first.\<close>

lemma load_artifact_returns:
  "load_artifact fs p = Inr (Inl d) \<Longrightarrow>
     d = error_dict (msg_not_found_on_open p) \<or> d = error_dict (msg_not_json p)"
  by (auto simp: load_artifact_def split: sum.splits if_splits)

lemma after_receipt_shape:
  "after_receipt w tr h rc = (tr', r) \<Longrightarrow>
     (\<exists>a. r = Inr [(''contractAddress'', a)]) \<or> r = Inr (error_dict msg_transaction_failed)"
  by (auto simp: after_receipt_def Let_def split: if_splits)

lemma build_sign_send_shape:
  "build_sign_send w tr k acct c args n g gp = (tr', r) \<Longrightarrow>
     (\<exists>e. r = Inl e \<and> (\<exists>ev\<in>set tr'. raised ev = Some e)) \<or>
     (\<exists>a. r = Inr [(''contractAddress'', a)]) \<or>
     r = Inr (error_dict msg_transaction_failed)"
  by (auto simp: build_sign_send_def Let_def split: sum.splits dest!: after_receipt_shape)

lemma deploy_try_body_shape:
  "deploy_try_body fs w p k args = (tr, r) \<Longrightarrow>
     (\<exists>e. r = Inl e \<and> ((\<exists>ev\<in>set tr. raised ev = Some e) \<or> load_artifact fs p = Inl e)) \<or>
     (\<exists>a. r = Inr [(''contractAddress'', a)]) \<or>
     r = Inr (error_dict msg_transaction_failed) \<or>
     r = Inr (error_dict (msg_not_found_on_open p)) \<or>
     r = Inr (error_dict (msg_not_json p)) \<or>
     (\<exists>e. r = Inr (error_dict (msg_estimating_gas e)) \<and> (\<exists>ev\<in>set tr. raised ev = Some e))"
  apply (simp add: deploy_try_body_def Let_def split: sum.splits prod.splits)
  apply (auto dest!: load_artifact_returns build_sign_send_shape)
  done

text \<open>The same for the whole function: the guards, and the handler of line 139.\<close>

lemma deploy_contract_backend_shape:
  "deploy_contract_backend RPC_URL fs w3_instance artifact_path private_key constructor_args = (tr, Inr d) \<Longrightarrow>
     (\<exists>a. d = [(''contractAddress'', a)]) \<or>
     (\<exists>reason. d = [(''error'', PStr reason)] \<and>
        (reason \<in> {msg_no_private_key, msg_no_artifact_path, msg_not_connected RPC_URL,
                    msg_not_found (the artifact_path), msg_not_found_on_open (the artifact_path),
                    msg_not_json (the artifact_path), msg_transaction_failed} \<or>
         (\<exists>e. (\<exists>ev\<in>set tr. raised ev = Some e) \<and> reason = msg_estimating_gas e) \<or>
         (\<exists>e. ((\<exists>ev\<in>set tr. raised ev = Some e) \<or>
               load_artifact fs (the artifact_path) = Inl e) \<and>
              reason = msg_unexpected e)))"
  apply (simp add: deploy_contract_backend_def split: run_splits)
         apply (auto simp: error_dict_def dest!: deploy_try_body_shape)
   apply blast+
  done

section \<open>The absent key\<close>

text \<open>
  Claim C4. When the secret key is absent (\<^verbatim>\<open>None\<close> or the empty string), the deployment
  function returns the configuration reason of line 43 and its call log is empty: it
  has made no call on the web3 object at all, so none that reaches the node.
\<close>

theorem absent_key_no_calls:
  "\<not> str_truthy private_key \<Longrightarrow>
     deploy_contract_backend RPC_URL fs w3_instance artifact_path private_key constructor_args =
       ([], Inr [(''error'', PStr ''Private key not configured in environment variables.'')])"
  by (simp add: deploy_contract_backend_def error_dict_def msg_no_private_key_def)

theorem absent_key_no_calls_witness:
  "\<not> str_truthy (Some []) \<and>
   deploy_contract_backend (Some ''https://node.example'') demo_fs (Some demo_w3)
       (Some ''Token.json'') (Some []) demo_args =
     ([], Inr [(''error'', PStr ''Private key not configured in environment variables.'')])"
  using absent_key_no_calls [of "Some []" "Some ''https://node.example''" demo_fs
    "Some demo_w3" "Some ''Token.json''" demo_args]
  by simp

section \<open>The missing artifact\<close>




section \<open>A failed gas estimation\<close>

text \<open>
  Claim C7. Take a run that gets as far as the gas estimation of lines 78-82: the guards
  pass, the account is derived, the artifact is read, the contract class is made and the
  nonce is fetched. When the estimation then raises \<open>e\<close>, be it while binding the
  constructor or in the node's estimate, the function returns the gas-estimation reason
  of line 92, built from the text of \<open>e\<close>; the reason is not empty. The last call of the
  run is the reading of the gas price for the console, and the returned value is the
  same whatever that reading does: it is unchanged when the outcome of the reading is
  replaced by any other.
\<close>

theorem estimation_failure_reason_kept:
  "deploy_contract_backend RPC_URL fs (Some w) (Some path) (Some k) constructor_args = (tr, r) \<Longrightarrow>
   k \<noteq> [] \<Longrightarrow> path \<noteq> [] \<Longrightarrow> is_connected w = Inr True \<Longrightarrow> path_exists fs path \<Longrightarrow>
   from_key w k = Inr acct \<Longrightarrow>
   open_read fs path = Inr content \<Longrightarrow> json_load fs content = Inr contract_json \<Longrightarrow>
   py_getitem contract_json ''abi'' = Inr abi \<Longrightarrow>
   py_getitem contract_json ''bytecode'' = Inr bytecode \<Longrightarrow>
   eth_contract w abi bytecode = Inr c \<Longrightarrow>
   get_transaction_count w (address acct) = Inr n \<Longrightarrow>
   constructor w c constructor_args = Inl e \<or>
   (\<exists>bound. constructor w c constructor_args = Inr bound \<and>
      estimate_gas w bound \<lparr>est_from = address acct, est_nonce = n\<rparr> = Inl e) \<Longrightarrow>
     r = Inr [(''error'', PStr (''Error estimating gas: '' @ exn_str e @
               ''. Check testnet ETH balance and constructor args.''))] \<and>
     msg_estimating_gas e \<noteq> [] \<and>
     last tr = GasPrice (gas_price w) \<and>
     (\<forall>other. snd (deploy_contract_backend RPC_URL fs (Some (w\<lparr>gas_price := other\<rparr>))
                     (Some path) (Some k) constructor_args) = r)"
  by (auto simp: run_defs load_artifact_def error_dict_def msg_estimating_gas_def)

theorem estimation_failure_reason_kept_witness:
  "estimate_gas estimate_fails demo_bound \<lparr>est_from = address demo_account, est_nonce = 5\<rparr> =
     Inl (Exn OtherException ''execution reverted'') \<and>
   gas_price estimate_fails = Inr 1 \<and>
   gas_price estimate_and_price_fail = Inl (Exn OtherException ''connection reset'') \<and>
   constructor binding_fails (Contract (PList []) (PStr ''0x6080'')) demo_args =
     Inl (Exn TypeError ''Incorrect argument count'') \<and>
   snd (demo_run estimate_fails demo_fs) =
     Inr [(''error'', PStr (''Error estimating gas: execution reverted'' @
            ''. Check testnet ETH balance and constructor args.''))] \<and>
   snd (demo_run estimate_and_price_fail demo_fs) = snd (demo_run estimate_fails demo_fs) \<and>
   last (fst (demo_run estimate_and_price_fail demo_fs)) =
     GasPrice (Inl (Exn OtherException ''connection reset'')) \<and>
   snd (demo_run binding_fails demo_fs) =
     Inr [(''error'', PStr (''Error estimating gas: Incorrect argument count'' @
            ''. Check testnet ETH balance and constructor args.''))]"
proof -
  let ?c = "Contract (PList []) (PStr ''0x6080'')"
  let ?ep = "\<lparr>est_from = address demo_account, est_nonce = 5\<rparr>"
  let ?e = "Exn OtherException ''execution reverted''"
  let ?t = "Exn TypeError ''Incorrect argument count''"
  have opened: "open_read demo_fs ''Token.json'' = Inr ''artifact text''"
    and parsed: "json_load demo_fs ''artifact text'' = Inr demo_artifact"
    and abi: "py_getitem demo_artifact ''abi'' = Inr (PList [])"
    and bytecode: "py_getitem demo_artifact ''bytecode'' = Inr (PStr ''0x6080'')"
    and there: "path_exists demo_fs ''Token.json''"
    by (simp_all add: demo_defs)
  have key: "''0x01'' \<noteq> []" and path: "''Token.json'' \<noteq> []"
    by simp_all
  have estimate_a: "estimate_gas estimate_fails demo_bound ?ep = Inl ?e"
    and price_a: "gas_price estimate_fails = Inr 1"
    by (simp_all add: demo_defs)
  have fails_a:
    "constructor estimate_fails ?c demo_args = Inl ?e \<or>
     (\<exists>bound. constructor estimate_fails ?c demo_args = Inr bound \<and>
        estimate_gas estimate_fails bound ?ep = Inl ?e)"
    by (simp add: demo_defs)
  have fails_b:
    "constructor estimate_and_price_fail ?c demo_args = Inl ?e \<or>
     (\<exists>bound. constructor estimate_and_price_fail ?c demo_args = Inr bound \<and>
        estimate_gas estimate_and_price_fail bound ?ep = Inl ?e)"
    by (simp add: demo_defs)
  have binding: "constructor binding_fails ?c demo_args = Inl ?t"
    by (simp add: demo_defs)
  then have fails_c:
    "constructor binding_fails ?c demo_args = Inl ?t \<or>
     (\<exists>bound. constructor binding_fails ?c demo_args = Inr bound \<and>
        estimate_gas binding_fails bound ?ep = Inl ?t)"
    by simp
  have price_b: "gas_price estimate_and_price_fail = Inl (Exn OtherException ''connection reset'')"
    by (simp add: demo_defs)
  let ?A = "demo_run estimate_fails demo_fs"
  let ?B = "demo_run estimate_and_price_fail demo_fs"
  let ?C = "demo_run binding_fails demo_fs"
  have A: "?A = (fst ?A, snd ?A)" and B: "?B = (fst ?B, snd ?B)" and C: "?C = (fst ?C, snd ?C)"
    by simp_all
  have ra: "snd ?A = Inr [(''error'', PStr (''Error estimating gas: '' @ exn_str ?e @
               ''. Check testnet ETH balance and constructor args.''))]"
    using estimation_failure_reason_kept [OF A [unfolded demo_run_def] key path _ there _
            opened parsed abi bytecode _ _ fails_a]
    by (simp add: demo_defs)
  have rb: "snd ?B = Inr [(''error'', PStr (''Error estimating gas: '' @ exn_str ?e @
               ''. Check testnet ETH balance and constructor args.''))] \<and>
            last (fst ?B) = GasPrice (gas_price estimate_and_price_fail)"
    using estimation_failure_reason_kept [OF B [unfolded demo_run_def] key path _ there _
            opened parsed abi bytecode _ _ fails_b]
    by (simp add: demo_defs)
  have rc: "snd ?C = Inr [(''error'', PStr (''Error estimating gas: '' @ exn_str ?t @
               ''. Check testnet ETH balance and constructor args.''))]"
    using estimation_failure_reason_kept [OF C [unfolded demo_run_def] key path _ there _
            opened parsed abi bytecode _ _ fails_c]
    by (simp add: demo_defs)
  from ra rb rc estimate_a price_a price_b binding show ?thesis
    by simp
qed

section \<open>The transaction that is built\<close>

text \<open>
  Claim C5. Whenever the function calls \<^verbatim>\<open>build_transaction\<close>, the dictionary it passes
  has as gas limit a gas estimate the node returned for this constructor plus exactly
  100000, and as chain id the value the node reports; the logged outcome is the node's.
  And the call is made: in a run that gets as far as the chain id (the guards pass, the
  account is derived, the artifact is read, the contract class is made, the nonce is
  fetched, the node estimates \<open>g\<close> and reports the chain id \<open>cid\<close>), the function builds
  exactly once, with the gas limit \<open>g + 100000\<close> and the chain id \<open>cid\<close>. With an
  estimate of 21000 the gas limit is 121000.
\<close>

theorem build_gas_limit_and_chain_id:
  "deploy_contract_backend RPC_URL fs (Some w) artifact_path private_key constructor_args = (tr, r) \<Longrightarrow>
     (\<forall>b p out. BuildTransaction b p out \<in> set tr \<longrightarrow>
        out = build_transaction w b p \<and>
        chain_id w = Inr (chainId p) \<and>
        (\<exists>ep g. estimate_gas w b ep = Inr g \<and> gas p = g + 100000)) \<and>
     (private_key = Some k \<and> k \<noteq> [] \<and> artifact_path = Some path \<and> path \<noteq> [] \<and>
      is_connected w = Inr True \<and> path_exists fs path \<and> from_key w k = Inr acct \<and>
      open_read fs path = Inr content \<and> json_load fs content = Inr contract_json \<and>
      py_getitem contract_json ''abi'' = Inr abi \<and>
      py_getitem contract_json ''bytecode'' = Inr bytecode \<and>
      eth_contract w abi bytecode = Inr c \<and>
      get_transaction_count w (address acct) = Inr n \<and>
      constructor w c constructor_args = Inr bound \<and>
      estimate_gas w bound \<lparr>est_from = address acct, est_nonce = n\<rparr> = Inr g \<and>
      chain_id w = Inr cid \<longrightarrow>
        (let p = \<lparr>tx_from = address acct, nonce = n, gas = g + 100000,
                  gasPrice = (case gas_price w of Inl e \<Rightarrow> 1000000000 | Inr current \<Rightarrow> current),
                  chainId = cid\<rparr>
         in filter is_build tr = [BuildTransaction bound p (build_transaction w bound p)]))"
proof (rule conjI)
  assume run:
    "deploy_contract_backend RPC_URL fs (Some w) artifact_path private_key constructor_args = (tr, r)"
  show "\<forall>b p out. BuildTransaction b p out \<in> set tr \<longrightarrow>
          out = build_transaction w b p \<and>
          chain_id w = Inr (chainId p) \<and>
          (\<exists>ep g. estimate_gas w b ep = Inr g \<and> gas p = g + 100000)"
    using run by (auto simp: run_defs split: run_splits)
next
  assume run:
    "deploy_contract_backend RPC_URL fs (Some w) artifact_path private_key constructor_args = (tr, r)"
  show "private_key = Some k \<and> k \<noteq> [] \<and> artifact_path = Some path \<and> path \<noteq> [] \<and>
      is_connected w = Inr True \<and> path_exists fs path \<and> from_key w k = Inr acct \<and>
      open_read fs path = Inr content \<and> json_load fs content = Inr contract_json \<and>
      py_getitem contract_json ''abi'' = Inr abi \<and>
      py_getitem contract_json ''bytecode'' = Inr bytecode \<and>
      eth_contract w abi bytecode = Inr c \<and>
      get_transaction_count w (address acct) = Inr n \<and>
      constructor w c constructor_args = Inr bound \<and>
      estimate_gas w bound \<lparr>est_from = address acct, est_nonce = n\<rparr> = Inr g \<and>
      chain_id w = Inr cid \<longrightarrow>
        (let p = \<lparr>tx_from = address acct, nonce = n, gas = g + 100000,
                  gasPrice = (case gas_price w of Inl e \<Rightarrow> 1000000000 | Inr current \<Rightarrow> current),
                  chainId = cid\<rparr>
         in filter is_build tr = [BuildTransaction bound p (build_transaction w bound p)])"
    using run
    by (auto simp: run_defs load_artifact_def to_wei_def split: sum.splits if_splits)
qed

theorem build_gas_limit_and_chain_id_witness:
  "estimate_gas demo_w3 demo_bound \<lparr>est_from = address demo_account, est_nonce = 5\<rparr> = Inr 21000 \<and>
   chain_id demo_w3 = Inr 8453 \<and>
   filter is_build (fst (demo_run demo_w3 demo_fs)) =
     [BuildTransaction demo_bound
        \<lparr>tx_from = ''0xA11CE'', nonce = 5, gas = 121000, gasPrice = 1, chainId = 8453\<rparr>
        (Inr \<lparr>params = \<lparr>tx_from = ''0xA11CE'', nonce = 5, gas = 121000, gasPrice = 1,
                         chainId = 8453\<rparr>, data = ''0x6080''\<rparr>)] \<and>
   estimate_gas other_node demo_bound \<lparr>est_from = address demo_account, est_nonce = 5\<rparr> = Inr 50000 \<and>
   chain_id other_node = Inr 1 \<and>
   filter is_build (fst (demo_run other_node demo_fs)) =
     [BuildTransaction demo_bound
        \<lparr>tx_from = ''0xA11CE'', nonce = 5, gas = 150000, gasPrice = 1, chainId = 1\<rparr>
        (Inr \<lparr>params = \<lparr>tx_from = ''0xA11CE'', nonce = 5, gas = 150000, gasPrice = 1,
                         chainId = 1\<rparr>, data = ''0x6080''\<rparr>)]"
proof -
  let ?ep = "\<lparr>est_from = address demo_account, est_nonce = 5\<rparr>"
  let ?A = "demo_run demo_w3 demo_fs"
  let ?B = "demo_run other_node demo_fs"
  have A: "?A = (fst ?A, snd ?A)" and B: "?B = (fst ?B, snd ?B)"
    by simp_all
  have est_a: "estimate_gas demo_w3 demo_bound ?ep = Inr 21000"
    and cid_a: "chain_id demo_w3 = Inr 8453"
    and est_b: "estimate_gas other_node demo_bound ?ep = Inr 50000"
    and cid_b: "chain_id other_node = Inr 1"
    by (simp_all add: demo_defs)
  note inst_a =
    build_gas_limit_and_chain_id
      [where k = "''0x01''" and path = "''Token.json''" and acct = demo_account
         and content = "''artifact text''" and contract_json = demo_artifact
         and abi = "PList []" and bytecode = "PStr ''0x6080''"
         and c = "Contract (PList []) (PStr ''0x6080'')" and n = 5 and bound = demo_bound
         and g = 21000 and cid = 8453,
       OF A [unfolded demo_run_def], THEN conjunct2]
  note inst_b =
    build_gas_limit_and_chain_id
      [where k = "''0x01''" and path = "''Token.json''" and acct = demo_account
         and content = "''artifact text''" and contract_json = demo_artifact
         and abi = "PList []" and bytecode = "PStr ''0x6080''"
         and c = "Contract (PList []) (PStr ''0x6080'')" and n = 5 and bound = demo_bound
         and g = 50000 and cid = 1,
       OF B [unfolded demo_run_def], THEN conjunct2]
  have built_a:
    "filter is_build (fst ?A) =
       [BuildTransaction demo_bound
          \<lparr>tx_from = ''0xA11CE'', nonce = 5, gas = 121000, gasPrice = 1, chainId = 8453\<rparr>
          (Inr \<lparr>params = \<lparr>tx_from = ''0xA11CE'', nonce = 5, gas = 121000, gasPrice = 1,
                           chainId = 8453\<rparr>, data = ''0x6080''\<rparr>)]"
    using inst_a by (simp add: demo_defs Let_def)
  have built_b:
    "filter is_build (fst ?B) =
       [BuildTransaction demo_bound
          \<lparr>tx_from = ''0xA11CE'', nonce = 5, gas = 150000, gasPrice = 1, chainId = 1\<rparr>
          (Inr \<lparr>params = \<lparr>tx_from = ''0xA11CE'', nonce = 5, gas = 150000, gasPrice = 1,
                           chainId = 1\<rparr>, data = ''0x6080''\<rparr>)]"
    using inst_b by (simp add: demo_defs Let_def)
  from built_a built_b est_a cid_a est_b cid_b show ?thesis
    by simp
qed

section \<open>The gas price fallback\<close>




section \<open>A receipt that does not arrive\<close>

text \<open>
  Claim C3, as the code has it. When waiting for the receipt raises \<open>e\<close> (the wait was
  given the timeout 300), the function returns the reason of the catch-all handler of
  line 139, \<^verbatim>\<open>An unexpected error occurred:\<close> followed by the text of \<open>e\<close>; the code has
  no reason of its own for a timeout. The wait is the last call of the run, and the run
  has submitted the transaction exactly once. The logged wait is the node's: it waited
  for the hash the one submission returned, and the node's wait raised \<open>e\<close>. And the
  wait is made: in a run in which every step up to the submission succeeds and the
  node's wait for the returned hash raises, the log ends with that wait.
\<close>

theorem receipt_timeout_single_submission:
  "deploy_contract_backend RPC_URL fs w3_instance artifact_path private_key constructor_args = (tr, r) \<Longrightarrow>
     (WaitForTransactionReceipt h t (Inl e) \<in> set tr \<longrightarrow>
        t = 300 \<and>
        r = Inr [(''error'', PStr (''An unexpected error occurred: '' @ exn_str e))] \<and>
        length (filter is_submission tr) = 1 \<and>
        last tr = WaitForTransactionReceipt h t (Inl e) \<and>
        (\<exists>w raw. w3_instance = Some w \<and>
           wait_for_transaction_receipt w h 300 = Inl e \<and>
           send_raw_transaction w raw = Inr h \<and>
           filter is_submission tr = [SendRawTransaction raw (Inr h)])) \<and>
     (w3_instance = Some node \<and>
      private_key = Some k \<and> k \<noteq> [] \<and> artifact_path = Some path \<and> path \<noteq> [] \<and>
      is_connected node = Inr True \<and> path_exists fs path \<and> from_key node k = Inr acct \<and>
      open_read fs path = Inr content \<and> json_load fs content = Inr contract_json \<and>
      py_getitem contract_json ''abi'' = Inr abi \<and>
      py_getitem contract_json ''bytecode'' = Inr bytecode \<and>
      eth_contract node abi bytecode = Inr c \<and>
      get_transaction_count node (address acct) = Inr n \<and>
      constructor node c constructor_args = Inr bound \<and>
      estimate_gas node bound \<lparr>est_from = address acct, est_nonce = n\<rparr> = Inr g \<and>
      chain_id node = Inr cid \<and>
      build_transaction node bound
        \<lparr>tx_from = address acct, nonce = n, gas = g + 100000,
           gasPrice = (case gas_price node of Inl x \<Rightarrow> 1000000000 | Inr current \<Rightarrow> current),
           chainId = cid\<rparr> = Inr txn \<and>
      sign_transaction node txn k = Inr signed \<and>
      send_raw_transaction node (rawTransaction signed) = Inr tx_hash \<and>
      wait_for_transaction_receipt node tx_hash 300 = Inl timeout \<longrightarrow>
        r = Inr [(''error'', PStr (''An unexpected error occurred: '' @ exn_str timeout))] \<and>
        last tr = WaitForTransactionReceipt tx_hash 300 (Inl timeout) \<and>
        filter is_submission tr = [SendRawTransaction (rawTransaction signed) (Inr tx_hash)])"
proof (rule conjI)
  assume run:
    "deploy_contract_backend RPC_URL fs w3_instance artifact_path private_key constructor_args = (tr, r)"
  show "WaitForTransactionReceipt h t (Inl e) \<in> set tr \<longrightarrow>
        t = 300 \<and>
        r = Inr [(''error'', PStr (''An unexpected error occurred: '' @ exn_str e))] \<and>
        length (filter is_submission tr) = 1 \<and>
        last tr = WaitForTransactionReceipt h t (Inl e) \<and>
        (\<exists>w raw. w3_instance = Some w \<and>
           wait_for_transaction_receipt w h 300 = Inl e \<and>
           send_raw_transaction w raw = Inr h \<and>
           filter is_submission tr = [SendRawTransaction raw (Inr h)])"
    using run by (auto simp: run_defs error_dict_def msg_unexpected_def split: run_splits)
next
  assume run:
    "deploy_contract_backend RPC_URL fs w3_instance artifact_path private_key constructor_args = (tr, r)"
  show "w3_instance = Some node \<and>
      private_key = Some k \<and> k \<noteq> [] \<and> artifact_path = Some path \<and> path \<noteq> [] \<and>
      is_connected node = Inr True \<and> path_exists fs path \<and> from_key node k = Inr acct \<and>
      open_read fs path = Inr content \<and> json_load fs content = Inr contract_json \<and>
      py_getitem contract_json ''abi'' = Inr abi \<and>
      py_getitem contract_json ''bytecode'' = Inr bytecode \<and>
      eth_contract node abi bytecode = Inr c \<and>
      get_transaction_count node (address acct) = Inr n \<and>
      constructor node c constructor_args = Inr bound \<and>
      estimate_gas node bound \<lparr>est_from = address acct, est_nonce = n\<rparr> = Inr g \<and>
      chain_id node = Inr cid \<and>
      build_transaction node bound
        \<lparr>tx_from = address acct, nonce = n, gas = g + 100000,
           gasPrice = (case gas_price node of Inl x \<Rightarrow> 1000000000 | Inr current \<Rightarrow> current),
           chainId = cid\<rparr> = Inr txn \<and>
      sign_transaction node txn k = Inr signed \<and>
      send_raw_transaction node (rawTransaction signed) = Inr tx_hash \<and>
      wait_for_transaction_receipt node tx_hash 300 = Inl timeout \<longrightarrow>
        r = Inr [(''error'', PStr (''An unexpected error occurred: '' @ exn_str timeout))] \<and>
        last tr = WaitForTransactionReceipt tx_hash 300 (Inl timeout) \<and>
        filter is_submission tr = [SendRawTransaction (rawTransaction signed) (Inr tx_hash)]"
    using run
    by (auto simp: run_defs load_artifact_def to_wei_def error_dict_def msg_unexpected_def
             split: sum.splits if_splits)
qed

theorem receipt_timeout_single_submission_witness:
  "WaitForTransactionReceipt ''0xabc'' 300 (Inl (Exn TimeExhausted ''timed out''))
     \<in> set (fst (demo_run receipt_times_out demo_fs)) \<and>
   snd (demo_run receipt_times_out demo_fs) =
     Inr [(''error'', PStr (''An unexpected error occurred: '' @ ''timed out''))] \<and>
   length (filter is_submission (fst (demo_run receipt_times_out demo_fs))) = 1 \<and>
   wait_for_transaction_receipt receipt_times_out ''0xabc'' 300 =
     Inl (Exn TimeExhausted ''timed out'')"
proof -
  let ?R = "demo_run receipt_times_out demo_fs"
  have waited: "WaitForTransactionReceipt ''0xabc'' 300 (Inl (Exn TimeExhausted ''timed out''))
                  \<in> set (fst ?R)"
    by (simp add: run_defs demo_defs)
  have node: "wait_for_transaction_receipt receipt_times_out ''0xabc'' 300 =
                Inl (Exn TimeExhausted ''timed out'')"
    by (simp add: demo_defs)
  have R: "?R = (fst ?R, snd ?R)"
    by simp
  note concl =
    receipt_timeout_single_submission
      [OF R [unfolded demo_run_def], THEN conjunct1, THEN mp, OF waited [unfolded demo_run_def]]
  from concl waited node show ?thesis
    by (simp add: demo_run_def)
qed

text \<open>
  The claim as the specification words it asks for a reason that is specific to the
  timeout. The reason is the catch-all one: a run in which the submission itself is
  refused, and no receipt is ever waited for, returns the very same value.
\<close>

theorem timeout_reason_not_specific:
  "last (fst (demo_run receipt_times_out demo_fs)) =
     WaitForTransactionReceipt ''0xabc'' 300 (Inl (Exn TimeExhausted ''timed out'')) \<and>
   snd (demo_run receipt_times_out demo_fs) =
     Inr [(''error'', PStr ''An unexpected error occurred: timed out'')] \<and>
   last (fst (demo_run submission_fails demo_fs)) =
     SendRawTransaction ''0xf86b'' (Inl (Exn OtherException ''timed out'')) \<and>
   snd (demo_run submission_fails demo_fs) =
     Inr [(''error'', PStr ''An unexpected error occurred: timed out'')]"
  by (simp add: run_defs demo_defs msg_defs)

section \<open>An artifact without a required field\<close>

text \<open>
  Claim C2, as the code has it. In a run that has derived the account and whose artifact
  file parses to a dictionary lacking \<^verbatim>\<open>abi\<close> or \<^verbatim>\<open>bytecode\<close>, the \<^verbatim>\<open>KeyError\<close> of line 65
  or 66 is caught by neither handler of lines 67-71 and reaches the catch-all handler of
  line 139: the function returns \<^verbatim>\<open>An unexpected error occurred:\<close> followed by the
  quoted name of the first missing field. This happens while loading: the call log
  holds the connectivity check and the key derivation and nothing else.
\<close>

theorem missing_field_unexpected_error:
  "deploy_contract_backend RPC_URL fs w3_instance (Some p) private_key constructor_args = (tr, r) \<Longrightarrow>
   FromKey k (Inr acct) \<in> set tr \<Longrightarrow>
   open_read fs p = Inr text \<Longrightarrow>
   json_load fs text = Inr (PDict kvs) \<Longrightarrow>
   map_of kvs ''abi'' = None \<or> map_of kvs ''bytecode'' = None \<Longrightarrow>
     r = Inr [(''error'', PStr (''An unexpected error occurred: '' @
               py_quote (if map_of kvs ''abi'' = None then ''abi'' else ''bytecode'')))] \<and>
     tr = [IsConnected (Inr True), FromKey k (Inr acct)]"
  by (auto simp: run_defs load_artifact_def error_dict_def msg_unexpected_def split: run_splits)

theorem missing_field_unexpected_error_witness:
  "FromKey ''0x01'' (Inr demo_account) \<in> set (fst (demo_run demo_w3 fs_without_abi)) \<and>
   open_read fs_without_abi ''Token.json'' = Inr ''artifact text'' \<and>
   json_load fs_without_abi ''artifact text'' = Inr (PDict [(''bytecode'', PStr ''0x6080'')]) \<and>
   map_of [(''bytecode'', PStr ''0x6080'')] ''abi'' = None \<and>
   demo_run demo_w3 fs_without_abi =
     ([IsConnected (Inr True), FromKey ''0x01'' (Inr demo_account)],
      Inr [(''error'', PStr (''An unexpected error occurred: '' @ py_quote ''abi''))])"
proof -
  let ?R = "demo_run demo_w3 fs_without_abi"
  have derived: "FromKey ''0x01'' (Inr demo_account) \<in> set (fst ?R)"
    by (simp add: run_defs demo_defs)
  have opened: "open_read fs_without_abi ''Token.json'' = Inr ''artifact text''"
    by (simp add: demo_defs)
  have parsed: "json_load fs_without_abi ''artifact text'' =
                  Inr (PDict [(''bytecode'', PStr ''0x6080'')])"
    by (simp add: demo_defs)
  have lacks: "map_of [(''bytecode'', PStr ''0x6080'')] ''abi'' = None \<or>
               map_of [(''bytecode'', PStr ''0x6080'')] ''bytecode'' = None"
    by simp
  have R: "?R = (fst ?R, snd ?R)"
    by simp
  note concl =
    missing_field_unexpected_error
      [OF R [unfolded demo_run_def] derived [unfolded demo_run_def] opened parsed lacks]
  from concl derived opened parsed show ?thesis
    by (simp add: demo_run_def prod_eq_iff)
qed

text \<open>
  The claim as the specification words it asks for the malformed-artifact result and
  excludes the generic report. The artifact without \<^verbatim>\<open>abi\<close> gets the generic report,
  which is not the reason of line 71.
\<close>

theorem missing_abi_not_malformed:
  "snd (demo_run demo_w3 fs_without_abi) =
     Inr [(''error'', PStr (''An unexpected error occurred: '' @ [CHR 0x27] @ ''abi'' @ [CHR 0x27]))] \<and>
   snd (demo_run demo_w3 fs_without_abi) \<noteq>
     Inr [(''error'', PStr (''Could not decode JSON from Token.json'' @
            ''. Ensure it's a valid JSON file.''))]"
  by (simp add: run_defs demo_defs msg_defs py_quote_def)

section \<open>What a failure returns\<close>

text \<open>
  Claim C1, as the code has it. A value the function returns is a dictionary with one
  key. When the key is \<^verbatim>\<open>error\<close>, its value is a string and nothing else (no exception
  object, no stage field): one of the seven fixed reasons of lines 43-71 and 135, or the
  reason of line 92 or of line 139, which carry the text of the exception that a call of
  this run raised (or that reading the artifact raised). The text of the caught
  exception, a node's error among them, is passed on to the caller word for word.
\<close>

theorem failure_reason_shape:
  "deploy_contract_backend RPC_URL fs w3_instance artifact_path private_key constructor_args = (tr, Inr d) \<Longrightarrow>
     (\<exists>a. d = [(''contractAddress'', a)]) \<or>
     (\<exists>reason. d = [(''error'', PStr reason)] \<and>
        (reason \<in> {msg_no_private_key, msg_no_artifact_path, msg_not_connected RPC_URL,
                    msg_not_found (the artifact_path), msg_not_found_on_open (the artifact_path),
                    msg_not_json (the artifact_path), msg_transaction_failed} \<or>
         (\<exists>e. (\<exists>ev\<in>set tr. raised ev = Some e) \<and>
              reason = ''Error estimating gas: '' @ exn_str e @
                       ''. Check testnet ETH balance and constructor args.'') \<or>
         (\<exists>e. ((\<exists>ev\<in>set tr. raised ev = Some e) \<or>
               load_artifact fs (the artifact_path) = Inl e) \<and>
              reason = ''An unexpected error occurred: '' @ exn_str e)))"
  by (rule deploy_contract_backend_shape [unfolded msg_estimating_gas_def msg_unexpected_def])

theorem failure_reason_shape_witness:
  "EstimateGas demo_bound demo_estimate_params (Inl (Exn OtherException ''execution reverted''))
     \<in> set (fst (demo_run estimate_fails demo_fs)) \<and>
   raised (EstimateGas demo_bound demo_estimate_params
             (Inl (Exn OtherException ''execution reverted''))) =
     Some (Exn OtherException ''execution reverted'') \<and>
   snd (demo_run estimate_fails demo_fs) =
     Inr [(''error'', PStr (''Error estimating gas: '' @ ''execution reverted'' @
            ''. Check testnet ETH balance and constructor args.''))]"
proof -
  let ?R = "demo_run estimate_fails demo_fs"
  let ?d = "[(''error'', PStr (''Error estimating gas: '' @ ''execution reverted'' @
              ''. Check testnet ETH balance and constructor args.''))]"
  have est: "EstimateGas demo_bound demo_estimate_params
               (Inl (Exn OtherException ''execution reverted'')) \<in> set (fst ?R)"
    by (simp add: run_defs demo_defs)
  have res: "snd ?R = Inr ?d"
    by (simp add: run_defs demo_defs msg_defs)
  have R: "?R = (fst ?R, Inr ?d)"
    using res by (simp add: prod_eq_iff)
  note concl = failure_reason_shape [OF R [unfolded demo_run_def]]
  from concl est res show ?thesis
    by simp
qed

text \<open>
  The claim as the specification words it keeps every raw node error out of the returned
  value. A node that refuses the submission has its error text in the reason.
\<close>

theorem raw_node_error_in_reason:
  "send_raw_transaction node_rejects ''0xf86b'' =
     Inl (Exn OtherException ''insufficient funds for gas * price + value'') \<and>
   snd (demo_run node_rejects demo_fs) =
     Inr [(''error'', PStr (''An unexpected error occurred: '' @
            ''insufficient funds for gas * price + value''))]"
  by (simp add: run_defs demo_defs msg_defs)

section \<open>Returning to the caller\<close>

text \<open>
  Claim C9, as the code has it. The connectivity check of line 46 stands before the
  \<^verbatim>\<open>try\<close>. In every run in which that check does not raise, the function returns a
  dictionary and raises nothing, whatever the file system and the other operations of
  the node do; the dictionary has exactly one key, \<^verbatim>\<open>contractAddress\<close> or \<^verbatim>\<open>error\<close>,
  and it is \<^verbatim>\<open>contractAddress\<close> exactly when a receipt with status 1 has arrived.
\<close>

theorem returns_one_key_when_check_returns:
  "deploy_contract_backend RPC_URL fs w3_instance artifact_path private_key constructor_args = (tr, r) \<Longrightarrow>
   (\<forall>w e. w3_instance = Some w \<longrightarrow> is_connected w \<noteq> Inl e) \<Longrightarrow>
     (\<exists>d. r = Inr d \<and>
        (keys d = [''contractAddress''] \<or> keys d = [''error'']) \<and>
        (keys d = [''contractAddress''] \<longleftrightarrow>
           (\<exists>h t rc. WaitForTransactionReceipt h t (Inr rc) \<in> set tr \<and> status rc = 1)))"
  by (auto simp: run_defs load_artifact_def keys_def error_dict_def split: run_splits)

theorem returns_one_key_when_check_returns_witness:
  "is_connected demo_w3 = Inr True \<and>
   is_connected node_rejects = Inr True \<and>
   snd (demo_run demo_w3 demo_fs) = Inr [(''contractAddress'', PStr ''0xC0FFEE'')] \<and>
   keys [(''contractAddress'', PStr ''0xC0FFEE'')] = [''contractAddress''] \<and>
   WaitForTransactionReceipt ''0xabc'' 300 (Inr demo_receipt) \<in> set (fst (demo_run demo_w3 demo_fs)) \<and>
   status demo_receipt = 1 \<and>
   (\<exists>d. snd (demo_run node_rejects demo_fs) = Inr d \<and> keys d = [''error''])"
proof -
  let ?A = "demo_run demo_w3 demo_fs"
  let ?B = "demo_run node_rejects demo_fs"
  have ca: "\<forall>w e. Some demo_w3 = Some w \<longrightarrow> is_connected w \<noteq> Inl e"
    by (simp add: demo_defs)
  have cb: "\<forall>w e. Some node_rejects = Some w \<longrightarrow> is_connected w \<noteq> Inl e"
    by (simp add: demo_defs)
  have A: "?A = (fst ?A, snd ?A)" and B: "?B = (fst ?B, snd ?B)"
    by simp_all
  note concl_a = returns_one_key_when_check_returns [OF A [unfolded demo_run_def] ca]
  note concl_b = returns_one_key_when_check_returns [OF B [unfolded demo_run_def] cb]
  have res_a: "snd ?A = Inr [(''contractAddress'', PStr ''0xC0FFEE'')]"
    by (simp add: run_defs demo_defs)
  have waited: "WaitForTransactionReceipt ''0xabc'' 300 (Inr demo_receipt) \<in> set (fst ?A)"
    by (simp add: run_defs demo_defs)
  have res_b: "snd ?B = Inr (error_dict (msg_unexpected
                 (Exn OtherException ''insufficient funds for gas * price + value'')))"
    by (simp add: run_defs demo_defs)
  from concl_a concl_b res_a res_b waited show ?thesis
    by (simp add: demo_defs keys_def error_dict_def)
qed

text \<open>
  The claim as written lets no behaviour of the chain client raise to the caller. When
  the connectivity check itself raises, the exception leaves the function.
\<close>

theorem connectivity_check_raises_to_caller:
  "demo_run connectivity_check_raises demo_fs =
     ([IsConnected (Inl (Exn OtherException ''bad response from node''))],
      Inl (Exn OtherException ''bad response from node''))"
  by (simp add: run_defs demo_defs)

section \<open>The migration threshold\<close>

text \<open>
  Claim C10. Whenever the route goes on to deploy, the third constructor argument is the
  integer 10000000000000000 (ten to the sixteenth, 0.01 ether in wei): nothing of the
  request enters it, and the branch for a connected node (\<^verbatim>\<open>to_wei(0.01, 'ether')\<close>) and
  the branch for a node that is absent or not connected compute the same number.
\<close>

theorem migration_threshold_constant:
  "deploy_token_arguments w3_global FEE_RECIPIENT_ADDRESS request_json = Inr (Inr arguments) \<Longrightarrow>
     (\<exists>token_name token_symbol fee.
        arguments = [token_name, token_symbol, PInt (10 ^ 16), PStr fee]) \<and>
     to_wei 1 2 Ether = 10 ^ 16"
  by (auto simp: deploy_token_arguments_def to_wei_def split: run_splits)

theorem migration_threshold_constant_witness:
  "deploy_token_arguments (Some demo_w3) (Some ''0xFEE'') demo_request = Inr (Inr demo_args) \<and>
   deploy_token_arguments None (Some ''0xFEE'') demo_request = Inr (Inr demo_args) \<and>
   deploy_token_arguments (Some (demo_w3\<lparr>is_connected := Inr False\<rparr>)) (Some ''0xFEE'')
     demo_request = Inr (Inr demo_args) \<and>
   demo_args ! 2 = PInt 10000000000000000"
proof -
  have connected:
    "deploy_token_arguments (Some demo_w3) (Some ''0xFEE'') demo_request = Inr (Inr demo_args)"
    by (simp add: deploy_token_arguments_def demo_defs to_wei_def)
  have absent:
    "deploy_token_arguments None (Some ''0xFEE'') demo_request = Inr (Inr demo_args)"
    by (simp add: deploy_token_arguments_def demo_defs)
  have disconnected:
    "deploy_token_arguments (Some (demo_w3\<lparr>is_connected := Inr False\<rparr>)) (Some ''0xFEE'')
       demo_request = Inr (Inr demo_args)"
    by (simp add: deploy_token_arguments_def demo_defs)
  from migration_threshold_constant [OF connected]
  have "demo_args ! 2 = PInt 10000000000000000"
    by (auto simp: demo_args_def)
  with connected absent disconnected show ?thesis
    by simp
qed

end
